theory Spec2Isabelle
  imports Main "HOL-Library.AList"
begin

section \<open>Vertex buffer objects of vispy.oogl.vbo\<close>

text \<open>
  A shallow embedding of \<^verbatim>\<open>vispy/oogl/vbo.py\<close>: the classes \<^verbatim>\<open>Buffer\<close> and
  \<^verbatim>\<open>VertexBuffer\<close> and the function \<^verbatim>\<open>unravel_dtype_fields\<close>.

  \<^item> Python integers are \<^typ>\<open>int\<close>; \<^verbatim>\<open>None\<close>-or-int arguments are \<^typ>\<open>int option\<close>.
  \<^item> A \<^verbatim>\<open>Buffer\<close> is a mutable object shared by several \<^verbatim>\<open>VertexBuffer\<close>s, so Buffers
    live in a heap addressed by references; a \<^verbatim>\<open>VertexBuffer\<close> holds the reference.
    Reference equality of Buffers is equality of references.
  \<^item> The \<^verbatim>\<open>gl\<close> module is an external collaborator: each call is appended to the
    device's call trace, and the handle that \<^verbatim>\<open>glGenBuffers\<close> returns is chosen by the
    driver. The calls themselves are taken to succeed.
  \<^item> Every \<^verbatim>\<open>raise\<close> and failing \<^verbatim>\<open>assert\<close> is an outcome \<open>Raises\<close>; the state reached when
    the exception is raised is returned next to it, since Python keeps the assignments
    made before a raise.
\<close>

subsection \<open>Values of the host language\<close>

datatype exn = ValueError | RuntimeError | AssertionError | AttributeError | TypeError

datatype 'a outcome = Returns 'a | Raises exn

text \<open>The constants of the \<^verbatim>\<open>gl\<close> module that the file names, kept symbolic.\<close>

datatype gl_const =
    GL_ARRAY_BUFFER | GL_ELEMENT_ARRAY_BUFFER | GL_DYNAMIC_DRAW
  | GL_UNSIGNED_BYTE | GL_BYTE | GL_UNSIGNED_SHORT | GL_SHORT | GL_FLOAT | GL_HALF_FLOAT
  | GL_OTHER int

text \<open>
  numpy dtypes and arrays, as far as the file reads them: \<^verbatim>\<open>dtype.name\<close>,
  \<^verbatim>\<open>dtype.itemsize\<close>, \<^verbatim>\<open>dtype.fields\<close> (\<^verbatim>\<open>None\<close>, or name, field dtype and byte offset
  in declaration order), a field dtype's \<^verbatim>\<open>name\<close> and \<^verbatim>\<open>subdtype\<close> (\<^verbatim>\<open>None\<close>, or the
  base dtype's name and the sub-array shape), and an array's \<^verbatim>\<open>dtype\<close> and \<^verbatim>\<open>shape\<close>.
  The array's contents are not read by this file, but \<^verbatim>\<open>data.astype(np.float32)\<close> depends
  on them: numpy converts every numeric array and raises \<^verbatim>\<open>ValueError\<close> or \<^verbatim>\<open>TypeError\<close> on
  an array it cannot convert (strings that are not numbers, record dtypes). The field
  \<open>nd_float32_error\<close> is numpy's answer for the array: \<open>None\<close> when the conversion is
  made, the exception otherwise.
\<close>

record field_dtype =
  fd_name :: string
  fd_subdtype :: "(string \<times> int list) option"

record dtype =
  dt_name :: string
  dt_itemsize :: int
  dt_fields :: "(string \<times> field_dtype \<times> int) list option"

record ndarray =
  nd_dtype :: dtype
  nd_shape :: "int list"
  nd_float32_error :: "exn option"

definition nd_ndim :: "ndarray \<Rightarrow> int" where
  "nd_ndim a = int (length (nd_shape a))"

definition nd_size :: "ndarray \<Rightarrow> int" where
  "nd_size a = prod_list (nd_shape a)"

definition nd_nbytes :: "ndarray \<Rightarrow> int" where
  "nd_nbytes a = dt_itemsize (nd_dtype a) * nd_size a"

definition float32 :: dtype where
  "float32 = \<lparr>dt_name = ''float32'', dt_itemsize = 4, dt_fields = None\<rparr>"

text \<open>
  \<^verbatim>\<open>data.astype(t)\<close>; the file calls it with \<^verbatim>\<open>np.float32\<close> only. The result is a new array
  of the same shape, or numpy's exception.
\<close>

definition astype :: "ndarray \<Rightarrow> dtype \<Rightarrow> ndarray outcome" where
  "astype a t =
     (case nd_float32_error a of
        Some e \<Rightarrow> Raises e
      | None \<Rightarrow> Returns (a\<lparr>nd_dtype := t\<rparr>))"

text \<open>What a caller can pass where the file tests \<^verbatim>\<open>isinstance\<close> or \<^verbatim>\<open>is None\<close>.\<close>

datatype pyval =
    PyNone
  | PyInt int
  | PyStr string
  | PySlice "int option" "int option" "int option"
  | PyArray ndarray
  | PyBuffer nat
  | PyObject

subsection \<open>The device\<close>

datatype gl_call =
    GenBuffers int
  | DeleteBuffers "int list"
  | BindBuffer gl_const int
  | BufferData gl_const int ndarray gl_const
  | BufferSubData gl_const int int ndarray

record device =
  calls :: "gl_call list"
  gen :: "gl_call list \<Rightarrow> int"

definition glGenBuffers :: "int \<Rightarrow> device \<Rightarrow> int \<times> device" where
  "glGenBuffers n d = (gen d (calls d), d\<lparr>calls := calls d @ [GenBuffers n]\<rparr>)"

definition glDeleteBuffers :: "int list \<Rightarrow> device \<Rightarrow> device" where
  "glDeleteBuffers hs d = d\<lparr>calls := calls d @ [DeleteBuffers hs]\<rparr>"

definition glBindBuffer :: "gl_const \<Rightarrow> int \<Rightarrow> device \<Rightarrow> device" where
  "glBindBuffer t h d = d\<lparr>calls := calls d @ [BindBuffer t h]\<rparr>"

definition glBufferData :: "gl_const \<Rightarrow> int \<Rightarrow> ndarray \<Rightarrow> gl_const \<Rightarrow> device \<Rightarrow> device" where
  "glBufferData t n a u d = d\<lparr>calls := calls d @ [BufferData t n a u]\<rparr>"

definition glBufferSubData :: "gl_const \<Rightarrow> int \<Rightarrow> int \<Rightarrow> ndarray \<Rightarrow> device \<Rightarrow> device" where
  "glBufferSubData t off n a d = d\<lparr>calls := calls d @ [BufferSubData t off n a]\<rparr>"

subsection \<open>DTYPES\<close>

definition DTYPES :: "(string \<times> gl_const) list" where
  "DTYPES =
     [(''uint8'', GL_UNSIGNED_BYTE), (''int8'', GL_BYTE),
      (''uint16'', GL_UNSIGNED_SHORT), (''int16'', GL_SHORT),
      (''float32'', GL_FLOAT),
      (''float16'', GL_HALF_FLOAT)]"

definition in_DTYPES :: "string \<Rightarrow> bool" where
  "in_DTYPES name = (map_of DTYPES name \<noteq> None)"

subsection \<open>Buffer\<close>

text \<open>
  The attribute \<^verbatim>\<open>_pending_data\<close> is assigned by \<^verbatim>\<open>set_data\<close> and \<^verbatim>\<open>_enable\<close> only;
  \<^verbatim>\<open>__init__\<close> assigns \<^verbatim>\<open>_target\<close>, \<^verbatim>\<open>_handle\<close> and \<^verbatim>\<open>_buffer_size\<close> and calls no base
  initialiser. \<open>Unassigned\<close> is the attribute before its first assignment (reading it
  raises \<^verbatim>\<open>AttributeError\<close>), \<open>NoPending\<close> is the value \<^verbatim>\<open>None\<close>, and \<open>Pending a off\<close> is
  the tuple \<^verbatim>\<open>(data, offset)\<close>.
\<close>

datatype pending = Unassigned | NoPending | Pending ndarray "int option"

record Buffer =
  target :: gl_const
  handle :: int
  buffer_size :: int
  pending_data :: pending

record heap =
  objs :: "nat \<Rightarrow> Buffer"
  next_ref :: nat

text \<open>\<^verbatim>\<open>Buffer.nbytes\<close>\<close>

definition nbytes :: "Buffer \<Rightarrow> int" where
  "nbytes b = buffer_size b"

text \<open>\<^verbatim>\<open>Buffer.set_data(self, data, offset=None)\<close>\<close>

definition Buffer_set_data :: "Buffer \<Rightarrow> pyval \<Rightarrow> int option \<Rightarrow> unit outcome \<times> Buffer" where
  "Buffer_set_data b data offset =
     (case data of
        PyArray a \<Rightarrow>
          (let b1 = (if handle b < 0 then b\<lparr>handle := 0, buffer_size := 0\<rparr> else b) in
           case offset of
             Some off \<Rightarrow>
               if off + nd_nbytes a \<le> buffer_size b1
               then (Returns (),
                     b1\<lparr>pending_data := Pending a (Some off), buffer_size := nd_nbytes a\<rparr>)
               else (Raises AssertionError, b1)
           | None \<Rightarrow>
               (let offset' = (if nd_nbytes a = buffer_size b1 then Some 0 else None) in
                (Returns (),
                 b1\<lparr>pending_data := Pending a offset', buffer_size := nd_nbytes a\<rparr>)))
      | _ \<Rightarrow> (Raises ValueError, b))"

text \<open>
  \<^verbatim>\<open>Buffer.__init__(self, target, data=None)\<close>: the new object's reference is returned.
  An object whose \<^verbatim>\<open>__init__\<close> raises on the target is never seen by the caller, so the heap
  is extended only past that check.
\<close>

definition Buffer_init :: "gl_const \<Rightarrow> pyval \<Rightarrow> heap \<Rightarrow> nat outcome \<times> heap" where
  "Buffer_init tgt data h =
     (if tgt \<noteq> GL_ARRAY_BUFFER \<and> tgt \<noteq> GL_ELEMENT_ARRAY_BUFFER then (Raises ValueError, h)
      else
        (let r = next_ref h;
             b = \<lparr>target = tgt, handle = 0, buffer_size = - 1, pending_data = Unassigned\<rparr>;
             h1 = h\<lparr>objs := (objs h)(r := b), next_ref := Suc r\<rparr>
         in case data of
              PyNone \<Rightarrow> (Returns r, h1)
            | _ \<Rightarrow>
               (case Buffer_set_data b data None of
                  (Raises e, b') \<Rightarrow> (Raises e, h1\<lparr>objs := (objs h1)(r := b')\<rparr>)
                | (Returns u, b') \<Rightarrow> (Returns r, h1\<lparr>objs := (objs h1)(r := b')\<rparr>))))"

text \<open>\<^verbatim>\<open>Buffer._create\<close>, \<^verbatim>\<open>Buffer._delete\<close>, \<^verbatim>\<open>Buffer._upload\<close>, \<^verbatim>\<open>Buffer._update\<close>\<close>

definition Buffer_create :: "Buffer \<Rightarrow> device \<Rightarrow> Buffer \<times> device" where
  "Buffer_create b d = (case glGenBuffers 1 d of (h, d') \<Rightarrow> (b\<lparr>handle := h\<rparr>, d'))"

definition Buffer_delete :: "Buffer \<Rightarrow> device \<Rightarrow> device" where
  "Buffer_delete b d = glDeleteBuffers [handle b] d"

definition Buffer_upload :: "Buffer \<Rightarrow> ndarray \<Rightarrow> device \<Rightarrow> device" where
  "Buffer_upload b a d = glBufferData (target b) (nd_nbytes a) a GL_DYNAMIC_DRAW d"

definition Buffer_update :: "Buffer \<Rightarrow> ndarray \<Rightarrow> int \<Rightarrow> device \<Rightarrow> device" where
  "Buffer_update b a off d = glBufferSubData (target b) off (nd_nbytes a) a d"

text \<open>
  Modelled from the spec: \<^verbatim>\<open>GLObject.delete\<close>, the inherited method that \<^verbatim>\<open>_enable\<close> calls
  as \<^verbatim>\<open>self.delete()\<close>; the base class \<^verbatim>\<open>GLObject\<close> is imported from the package and is
  not part of this file. The spec's \<^verbatim>\<open>dispose()\<close>: "release the device handle if
  allocated; idempotent". A handle is allocated when it is positive (\<open>0\<close> is
  uninitialised, negative is failed); releasing it goes through the class's own
  \<^verbatim>\<open>_delete\<close> and leaves the handle uninitialised, which makes a second call a no-op.
\<close>

definition GLObject_delete :: "Buffer \<Rightarrow> device \<Rightarrow> Buffer \<times> device" where
  "GLObject_delete b d =
     (if 0 < handle b then (b\<lparr>handle := 0\<rparr>, Buffer_delete b d) else (b, d))"

text \<open>\<^verbatim>\<open>Buffer._enable(self)\<close>. A two-element tuple is always true in \<^verbatim>\<open>if self._pending_data\<close>.\<close>

definition Buffer_enable :: "Buffer \<Rightarrow> device \<Rightarrow> unit outcome \<times> Buffer \<times> device" where
  "Buffer_enable b d =
     (if handle b < 0 then (Returns (), b, d)
      else
        case pending_data b of
          Unassigned \<Rightarrow> (Raises AttributeError, b, d)
        | NoPending \<Rightarrow> (Returns (), b, glBindBuffer (target b) (handle b) d)
        | Pending a offset \<Rightarrow>
            (let b1 = b\<lparr>pending_data := NoPending\<rparr> in
             case offset of
               Some off \<Rightarrow>
                 (let d1 = glBindBuffer (target b1) (handle b1) d;
                      d2 = Buffer_update b1 a off d1
                  in (Returns (), b1, glBindBuffer (target b1) (handle b1) d2))
             | None \<Rightarrow>
                 (case GLObject_delete b1 d of (b2, d1) \<Rightarrow>
                  case Buffer_create b2 d1 of (b3, d2) \<Rightarrow>
                  (let d3 = glBindBuffer (target b3) (handle b3) d2;
                       d4 = Buffer_upload b3 a d3
                   in (Returns (), b3, glBindBuffer (target b3) (handle b3) d4)))))"

text \<open>\<^verbatim>\<open>Buffer._disable(self)\<close>\<close>

definition Buffer_disable :: "Buffer \<Rightarrow> device \<Rightarrow> device" where
  "Buffer_disable b d = glBindBuffer (target b) 0 d"

subsection \<open>unravel_dtype_fields\<close>

text \<open>
  The result is a Python dict from field name to the tuple \<^verbatim>\<open>(dtypename, size, offset)\<close>,
  kept as an association list in insertion order; \<open>AList.update\<close> is the dict's item
  assignment and \<open>map_of\<close> its lookup.
\<close>

type_synonym fieldinfo = "string \<times> int \<times> int"

fun unravel_fields ::
  "(string \<times> field_dtype \<times> int) list \<Rightarrow> (string \<times> fieldinfo) list \<Rightarrow>
   (string \<times> fieldinfo) list outcome" where
  "unravel_fields [] flds = Returns flds"
| "unravel_fields ((name, ty, off) # rest) flds =
     (case (case fd_subdtype ty of
              Some (thisname, shp) \<Rightarrow> (thisname, shp)
            | None \<Rightarrow> (fd_name ty, [1])) of
        (thisname, [n]) \<Rightarrow> unravel_fields rest (AList.update name (thisname, n, off) flds)
      | (thisname, _) \<Rightarrow> Raises AssertionError)"

definition unravel_dtype_fields :: "dtype \<Rightarrow> (string \<times> fieldinfo) list outcome" where
  "unravel_dtype_fields t =
     (case dt_fields t of
        None \<Rightarrow> Raises TypeError
      | Some fs \<Rightarrow> unravel_fields fs [])"

subsection \<open>VertexBuffer\<close>

text \<open>
  \<^verbatim>\<open>_type\<close> is \<^verbatim>\<open>None\<close>, a dtype name, or the dict of field infos; \<^verbatim>\<open>_shape\<close> is \<^verbatim>\<open>None\<close> or
  a pair. \<^verbatim>\<open>_buffer\<close> is a reference to a Buffer of the heap, never \<^verbatim>\<open>None\<close>:
  \<^verbatim>\<open>__init__\<close> either assigns a Buffer or raises.
\<close>

datatype vb_type = TypeNone | TypeName string | TypeFields "(string \<times> fieldinfo) list"

record VertexBuffer =
  isview :: bool
  buffer :: nat
  offset :: int
  stride :: int
  shape :: "(int \<times> int) option"
  vtype :: vb_type

text \<open>
  The end of \<^verbatim>\<open>VertexBuffer.set_data\<close>, from \<^verbatim>\<open># Check offset\<close> on: \<open>a\<close> is the array
  after the conversion, \<open>k\<close> is \<^verbatim>\<open>self._shape[1]\<close>. In \<^verbatim>\<open>(offset or 0)\<close> both \<^verbatim>\<open>None\<close> and
  \<open>0\<close> give \<open>0\<close>.
\<close>

definition set_data_in_buffer ::
  "VertexBuffer \<Rightarrow> ndarray \<Rightarrow> int \<Rightarrow> int option \<Rightarrow> heap \<Rightarrow> unit outcome \<times> VertexBuffer \<times> heap" where
  "set_data_in_buffer v a k offs h =
     (let offs' = (if offset v \<noteq> 0
                   then Some ((case offs of None \<Rightarrow> 0 | Some off \<Rightarrow> off) + offset v)
                   else offs);
          v1 = v\<lparr>stride := dt_itemsize (nd_dtype a) * k\<rparr>
      in case Buffer_set_data (objs h (buffer v)) (PyArray a) offs' of
           (r, b') \<Rightarrow> (r, v1, h\<lparr>objs := (objs h)(buffer v := b')\<rparr>))"

text \<open>\<^verbatim>\<open>VertexBuffer.set_data(self, data, offset=None)\<close>\<close>

definition VertexBuffer_set_data ::
  "VertexBuffer \<Rightarrow> pyval \<Rightarrow> int option \<Rightarrow> heap \<Rightarrow> unit outcome \<times> VertexBuffer \<times> heap" where
  "VertexBuffer_set_data v data offs h =
     (if isview v then (Raises RuntimeError, v, h)
      else
        case data of
          PyArray a \<Rightarrow>
            (if dt_fields (nd_dtype a) \<noteq> None \<and> dt_fields (nd_dtype a) \<noteq> Some []
             then
               (case unravel_dtype_fields (nd_dtype a) of
                  Raises e \<Rightarrow> (Raises e, v, h)
                | Returns flds \<Rightarrow>
                    if list_all (\<lambda>(name, fieldinfo).
                          in_DTYPES (fst fieldinfo) \<and> fst (snd fieldinfo) \<in> {1, 2, 3, 4}) flds
                    then set_data_in_buffer
                           (v\<lparr>vtype := TypeFields flds, shape := Some (nd_size a, 1)\<rparr>)
                           a 1 offs h
                    else (Raises AssertionError, v, h))
             else
               if nd_ndim a \<noteq> 1 \<and> nd_ndim a \<noteq> 2 then (Raises AssertionError, v, h)
               else if nd_ndim a = 2 \<and> nd_shape a ! 1 \<notin> {1, 2, 3, 4}
               then (Raises AssertionError, v, h)
               else
                 (let tuple_count = (if nd_ndim a = 2 then nd_shape a ! 1 else 1)
                  in case (if \<not> in_DTYPES (dt_name (nd_dtype a))
                           then astype a float32 else Returns a) of
                       Raises e \<Rightarrow> (Raises e, v, h)
                     | Returns a' \<Rightarrow>
                         set_data_in_buffer
                           (v\<lparr>vtype := TypeName (dt_name (nd_dtype a')),
                              shape := Some (nd_shape a' ! 0, tuple_count)\<rparr>)
                           a' tuple_count offs h))
        | _ \<Rightarrow> (Raises ValueError, v, h))"

text \<open>\<^verbatim>\<open>VertexBuffer.__init__(self, data=None, buffer=None)\<close>\<close>

definition VertexBuffer_init :: "pyval \<Rightarrow> pyval \<Rightarrow> heap \<Rightarrow> VertexBuffer outcome \<times> heap" where
  "VertexBuffer_init data buf h =
     (case (case buf of
              PyNone \<Rightarrow> Buffer_init GL_ARRAY_BUFFER PyNone h
            | PyBuffer r \<Rightarrow> (Returns r, h)
            | _ \<Rightarrow> (Raises ValueError, h)) of
        (Raises e, h1) \<Rightarrow> (Raises e, h1)
      | (Returns r, h1) \<Rightarrow>
          (let v = \<lparr>isview = False, buffer = r, offset = 0, stride = 0,
                    shape = None, vtype = TypeNone\<rparr>
           in case data of
                PyNone \<Rightarrow> (Returns v, h1)
              | _ \<Rightarrow>
                 (case VertexBuffer_set_data v data None h1 of
                    (Raises e, v', h2) \<Rightarrow> (Raises e, h2)
                  | (Returns u, v', h2) \<Rightarrow> (Returns v', h2))))"

text \<open>\<^verbatim>\<open>VertexBuffer._enable\<close>, \<^verbatim>\<open>VertexBuffer._disable\<close>, \<^verbatim>\<open>VertexBuffer.view_params\<close>\<close>

definition VertexBuffer_enable ::
  "VertexBuffer \<Rightarrow> heap \<Rightarrow> device \<Rightarrow> unit outcome \<times> heap \<times> device" where
  "VertexBuffer_enable v h d =
     (case Buffer_enable (objs h (buffer v)) d of
        (r, b', d') \<Rightarrow> (r, h\<lparr>objs := (objs h)(buffer v := b')\<rparr>, d'))"

definition VertexBuffer_disable :: "VertexBuffer \<Rightarrow> heap \<Rightarrow> device \<Rightarrow> device" where
  "VertexBuffer_disable v h d = Buffer_disable (objs h (buffer v)) d"

definition view_params :: "VertexBuffer \<Rightarrow> int \<times> int" where
  "view_params v = (offset v, stride v)"

text \<open>
  \<^verbatim>\<open>VertexBuffer.__getitem__(self, index)\<close>. \<open>slice_bound x\<close> is the left operand of
  \<^verbatim>\<open>x or default\<close> when it is true: \<^verbatim>\<open>None\<close> and \<open>0\<close> are both false, so both take the
  default. The default of \<^verbatim>\<open>stop\<close>, \<^verbatim>\<open>self._shape[0]\<close>, is evaluated only then, and
  subscripting \<^verbatim>\<open>None\<close> raises \<^verbatim>\<open>TypeError\<close>.
\<close>

definition slice_bound :: "int option \<Rightarrow> int option" where
  "slice_bound x = (case x of None \<Rightarrow> None | Some n \<Rightarrow> if n = 0 then None else Some n)"

definition getitem_params ::
  "VertexBuffer \<Rightarrow> pyval \<Rightarrow> (int \<times> int \<times> vb_type \<times> int \<times> int) outcome" where
  "getitem_params v index =
     (case index of
        PyStr name \<Rightarrow>
          (case vtype v of
             TypeFields flds \<Rightarrow>
               (case map_of flds name of
                  None \<Rightarrow> Raises ValueError
                | Some (ftype, fcount, foffset) \<Rightarrow>
                    (case shape v of
                       None \<Rightarrow> Raises TypeError
                     | Some (n, k) \<Rightarrow>
                         Returns (foffset + offset v, stride v, TypeName ftype, n, fcount)))
           | _ \<Rightarrow> Raises RuntimeError)
      | PySlice istart istop istep \<Rightarrow>
          (let start = (case slice_bound istart of None \<Rightarrow> 0 | Some n \<Rightarrow> n);
               step = (case slice_bound istep of None \<Rightarrow> 1 | Some n \<Rightarrow> n)
           in case (case slice_bound istop of
                      Some n \<Rightarrow> Returns n
                    | None \<Rightarrow> (case shape v of
                                 None \<Rightarrow> Raises TypeError
                               | Some (n, k) \<Rightarrow> Returns n)) of
                Raises e \<Rightarrow> Raises e
              | Returns stop \<Rightarrow>
                  if \<not> 0 \<le> start then Raises AssertionError
                  else if \<not> 1 \<le> step then Raises AssertionError
                  else if \<not> 0 < stop then Raises AssertionError
                  else
                    (case shape v of
                       None \<Rightarrow> Raises TypeError
                     | Some (n, k) \<Rightarrow>
                         Returns (start * stride v + offset v, step * stride v, vtype v,
                                  (stop - start) div step, k)))
      | _ \<Rightarrow> Raises ValueError)"

definition VertexBuffer_getitem ::
  "VertexBuffer \<Rightarrow> pyval \<Rightarrow> heap \<Rightarrow> VertexBuffer outcome \<times> heap" where
  "VertexBuffer_getitem v index h =
     (case getitem_params v index of
        Raises e \<Rightarrow> (Raises e, h)
      | Returns (new_offset, new_stride, new_type, new_shape0, new_shape1) \<Rightarrow>
          (case VertexBuffer_init PyNone (PyBuffer (buffer v)) h of
             (Raises e, h1) \<Rightarrow> (Raises e, h1)
           | (Returns newbuffer, h1) \<Rightarrow>
               (Returns (newbuffer\<lparr>isview := True, offset := new_offset,
                           stride := new_stride,
                           shape := Some (new_shape0, new_shape1), vtype := new_type\<rparr>),
                h1)))"

subsection \<open>Concrete states for the examples\<close>

text \<open>
  A heap in which no Buffer has been created yet, a device that has received no call and
  whose driver numbers its handles from \<open>1\<close>, and some dtypes and arrays.
\<close>

definition heap0 :: heap where
  "heap0 =
     \<lparr>objs = (\<lambda>r. \<lparr>target = GL_ARRAY_BUFFER, handle = 0, buffer_size = - 1,
                    pending_data = Unassigned\<rparr>),
      next_ref = 0\<rparr>"

definition device0 :: device where
  "device0 = \<lparr>calls = [], gen = (\<lambda>cs. 1 + int (length cs))\<rparr>"

definition float64 :: dtype where
  "float64 = \<lparr>dt_name = ''float64'', dt_itemsize = 8, dt_fields = None\<rparr>"

definition uint8 :: dtype where
  "uint8 = \<lparr>dt_name = ''uint8'', dt_itemsize = 1, dt_fields = None\<rparr>"

text \<open>
  \<^verbatim>\<open>numpy.zeros(shp, t)\<close> for a numeric dtype \<open>t\<close>, which numpy converts to \<^verbatim>\<open>float32\<close>; and
  \<^verbatim>\<open>numpy.zeros(shp, 'U1')\<close>, an array of empty strings of dtype \<^verbatim>\<open>str32\<close>, on which
  \<^verbatim>\<open>astype(np.float32)\<close> raises \<^verbatim>\<open>ValueError\<close>.
\<close>

definition zeros :: "int list \<Rightarrow> dtype \<Rightarrow> ndarray" where
  "zeros shp t = \<lparr>nd_dtype = t, nd_shape = shp, nd_float32_error = None\<rparr>"

definition str32 :: dtype where
  "str32 = \<lparr>dt_name = ''str32'', dt_itemsize = 4, dt_fields = None\<rparr>"

definition empty_strings :: "int list \<Rightarrow> ndarray" where
  "empty_strings shp =
     \<lparr>nd_dtype = str32, nd_shape = shp, nd_float32_error = Some ValueError\<rparr>"

text \<open>
  A record dtype with a three-component \<^verbatim>\<open>float32\<close> field at byte \<open>0\<close> and a
  four-component \<^verbatim>\<open>uint8\<close> field at byte \<open>12\<close>.
\<close>

definition vertex_dtype :: dtype where
  "vertex_dtype =
     \<lparr>dt_name = ''void128'', dt_itemsize = 16,
      dt_fields = Some
        [(''pos'', \<lparr>fd_name = ''void96'', fd_subdtype = Some (''float32'', [3])\<rparr>, 0),
         (''color'', \<lparr>fd_name = ''void32'', fd_subdtype = Some (''uint8'', [4])\<rparr>, 12)]\<rparr>"

text \<open>
  The VertexBuffers that \<^verbatim>\<open>VertexBuffer()\<close>, \<^verbatim>\<open>VertexBuffer(zeros((100, 3), float32))\<close> and
  \<^verbatim>\<open>VertexBuffer(zeros(10, vertex_dtype))\<close> give in \<open>heap0\<close>, and the view
  \<^verbatim>\<open>VertexBuffer(zeros((100, 3), float32))[:10]\<close>.
\<close>

definition vb_empty :: VertexBuffer where
  "vb_empty = \<lparr>isview = False, buffer = 0, offset = 0, stride = 0, shape = None,
               vtype = TypeNone\<rparr>"

definition vb100 :: VertexBuffer where
  "vb100 = \<lparr>isview = False, buffer = 0, offset = 0, stride = 12, shape = Some (100, 3),
            vtype = TypeName ''float32''\<rparr>"

definition vb_struct :: VertexBuffer where
  "vb_struct =
     \<lparr>isview = False, buffer = 0, offset = 0, stride = 16, shape = Some (10, 1),
      vtype = TypeFields [(''pos'', ''float32'', 3, 0), (''color'', ''uint8'', 4, 12)]\<rparr>"

definition vb_view :: VertexBuffer where
  "vb_view = \<lparr>isview = True, buffer = 0, offset = 0, stride = 12, shape = Some (10, 3),
              vtype = TypeName ''float32''\<rparr>"

subsection \<open>Auxiliary facts\<close>

lemmas gl_defs = glGenBuffers_def glDeleteBuffers_def glBindBuffer_def glBufferData_def
  glBufferSubData_def

lemmas Buffer_device_defs = GLObject_delete_def Buffer_create_def Buffer_delete_def
  Buffer_upload_def Buffer_update_def

lemma astype_simps [simp]:
  "nd_float32_error a = None \<Longrightarrow> astype a t = Returns (a\<lparr>nd_dtype := t\<rparr>)"
  "nd_float32_error a = Some e \<Longrightarrow> astype a t = Raises e"
  by (simp_all add: astype_def)

lemma float32_simps [simp]:
  "dt_name float32 = ''float32''" "dt_itemsize float32 = 4" "dt_fields float32 = None"
  by (simp_all add: float32_def)

lemma zeros_simps [simp]:
  "nd_dtype (zeros shp t) = t" "nd_shape (zeros shp t) = shp"
  "nd_float32_error (zeros shp t) = None"
  by (simp_all add: zeros_def)

lemma nbytes_zeros_float32 [simp]: "nd_nbytes (zeros [n] float32) = 4 * n"
  by (simp add: nd_nbytes_def nd_size_def)

lemma nbytes_zeros_uint8 [simp]: "nd_nbytes (zeros [n] uint8) = n"
  by (simp add: nd_nbytes_def nd_size_def uint8_def)

lemma slice_bound_simps [simp]:
  "slice_bound None = None"
  "slice_bound (Some n) = (if n = 0 then None else Some n)"
  by (simp_all add: slice_bound_def)

lemma in_DTYPES_iff:
  "in_DTYPES name \<longleftrightarrow>
     name \<in> {''uint8'', ''int8'', ''uint16'', ''int16'', ''float32'', ''float16''}"
  by (simp add: in_DTYPES_def DTYPES_def)

text \<open>\<^verbatim>\<open>Buffer.set_data(data)\<close> with an array and no offset, in one equation.\<close>

lemma Buffer_set_data_no_offset:
  "Buffer_set_data b (PyArray a) None =
     (Returns (),
      \<lparr>target = target b,
       handle = (if handle b < 0 then 0 else handle b),
       buffer_size = nd_nbytes a,
       pending_data =
         Pending a (if nd_nbytes a = (if handle b < 0 then 0 else buffer_size b)
                    then Some 0 else None)\<rparr>)"
  by (simp add: Buffer_set_data_def Let_def)

text \<open>A sub-range overwrite that passes the assertion records the size of the new data.\<close>

lemma Buffer_set_data_offset_nbytes:
  assumes "0 \<le> handle b" and "off + nd_nbytes a \<le> buffer_size b"
  shows "Buffer_set_data b (PyArray a) (Some off) =
           (Returns (), b\<lparr>pending_data := Pending a (Some off), buffer_size := nd_nbytes a\<rparr>)"
  using assms by (simp add: Buffer_set_data_def)

text \<open>
  \<^verbatim>\<open>b = Buffer(GL_ARRAY_BUFFER, zeros(100, uint8)); b._enable()\<close> on the fresh device: a
  live Buffer of 100 bytes with handle \<open>1\<close>.
\<close>

lemma Buffer_live_example:
  "fst (Buffer_init GL_ARRAY_BUFFER (PyArray (zeros [100] uint8)) heap0) = Returns 0"
  "Buffer_enable
     (objs (snd (Buffer_init GL_ARRAY_BUFFER (PyArray (zeros [100] uint8)) heap0)) 0) device0 =
   (Returns (),
    \<lparr>target = GL_ARRAY_BUFFER, handle = 1, buffer_size = 100, pending_data = NoPending\<rparr>,
    device0\<lparr>calls :=
      [GenBuffers 1, BindBuffer GL_ARRAY_BUFFER 1,
       BufferData GL_ARRAY_BUFFER 100 (zeros [100] uint8) GL_DYNAMIC_DRAW,
       BindBuffer GL_ARRAY_BUFFER 1]\<rparr>)"
  by (simp_all add: Buffer_init_def heap0_def Buffer_set_data_no_offset Buffer_enable_def
      Buffer_device_defs gl_defs device0_def)

text \<open>
  A Buffer created without data has no \<^verbatim>\<open>_pending_data\<close> attribute, and \<^verbatim>\<open>_enable\<close> reads it.
\<close>

lemma Buffer_enable_before_set_data:
  assumes "Buffer_init GL_ARRAY_BUFFER PyNone h = (Returns r, h')"
  shows "fst (Buffer_enable (objs h' r) d) = Raises AttributeError"
  using assms by (auto simp: Buffer_init_def Buffer_enable_def Let_def)

text \<open>\<^verbatim>\<open>VertexBuffer(buffer=b)\<close> reads nothing of the Buffer and changes no Buffer.\<close>

lemma VertexBuffer_init_buffer:
  "VertexBuffer_init PyNone (PyBuffer r) h =
     (Returns \<lparr>isview = False, buffer = r, offset = 0, stride = 0, shape = None,
               vtype = TypeNone\<rparr>, h)"
  by (simp add: VertexBuffer_init_def)

lemma VertexBuffer_getitem_params:
  assumes "getitem_params v index =
             Returns (new_offset, new_stride, new_type, new_shape0, new_shape1)"
  shows "VertexBuffer_getitem v index h =
           (Returns \<lparr>isview = True, buffer = buffer v, offset = new_offset,
                     stride = new_stride, shape = Some (new_shape0, new_shape1),
                     vtype = new_type\<rparr>, h)"
  using assms by (simp add: VertexBuffer_getitem_def VertexBuffer_init_buffer)

lemma VertexBuffer_getitem_raises:
  assumes "getitem_params v index = Raises e"
  shows "VertexBuffer_getitem v index h = (Raises e, h)"
  using assms by (simp add: VertexBuffer_getitem_def)

text \<open>The plain-array branch of \<^verbatim>\<open>VertexBuffer.set_data\<close> up to the hand-over to the Buffer.\<close>

lemma VertexBuffer_set_data_plain_array:
  assumes "\<not> isview v"
    and "dt_fields (nd_dtype a) = None \<or> dt_fields (nd_dtype a) = Some []"
    and "nd_shape a = [n] \<and> k = 1 \<or> nd_shape a = [n, k] \<and> k \<in> {1, 2, 3, 4}"
  shows "VertexBuffer_set_data v (PyArray a) offs h =
           (if in_DTYPES (dt_name (nd_dtype a))
            then set_data_in_buffer
                   (v\<lparr>vtype := TypeName (dt_name (nd_dtype a)), shape := Some (n, k)\<rparr>)
                   a k offs h
            else
              case nd_float32_error a of
                Some e \<Rightarrow> (Raises e, v, h)
              | None \<Rightarrow>
                  set_data_in_buffer
                    (v\<lparr>vtype := TypeName ''float32'', shape := Some (n, k)\<rparr>)
                    (a\<lparr>nd_dtype := float32\<rparr>) k offs h)"
  using assms
  by (auto simp: VertexBuffer_set_data_def nd_ndim_def Let_def astype_def
      split: option.splits)

lemma VertexBuffer_init_float32_100_3:
  "fst (VertexBuffer_init (PyArray (zeros [100, 3] float32)) PyNone h) =
     Returns \<lparr>isview = False, buffer = next_ref h, offset = 0, stride = 12,
              shape = Some (100, 3), vtype = TypeName ''float32''\<rparr>"
proof -
  have "VertexBuffer_set_data
          \<lparr>isview = False, buffer = r, offset = 0, stride = 0, shape = None, vtype = TypeNone\<rparr>
          (PyArray (zeros [100, 3] float32)) None h' =
        set_data_in_buffer
          \<lparr>isview = False, buffer = r, offset = 0, stride = 0, shape = Some (100, 3),
           vtype = TypeName ''float32''\<rparr>
          (zeros [100, 3] float32) 3 None h'" for r h'
    by (simp add: VertexBuffer_set_data_plain_array [where n = 100 and k = 3] in_DTYPES_iff)
  then show ?thesis
    by (simp add: VertexBuffer_init_def Buffer_init_def Let_def set_data_in_buffer_def
        Buffer_set_data_no_offset)
qed

text \<open>The concrete VertexBuffers are what the constructor and the slicing give.\<close>

lemma VertexBuffer_init_examples:
  "fst (VertexBuffer_init PyNone PyNone heap0) = Returns vb_empty"
  "fst (VertexBuffer_init (PyArray (zeros [100, 3] float32)) PyNone heap0) = Returns vb100"
  "fst (VertexBuffer_init (PyArray (zeros [10] vertex_dtype)) PyNone heap0) = Returns vb_struct"
  "fst (VertexBuffer_getitem vb100 (PySlice None (Some 10) None) heap0) = Returns vb_view"
proof -
  show "fst (VertexBuffer_init PyNone PyNone heap0) = Returns vb_empty"
    by (simp add: VertexBuffer_init_def Buffer_init_def heap0_def vb_empty_def Let_def)
  show "fst (VertexBuffer_init (PyArray (zeros [100, 3] float32)) PyNone heap0) = Returns vb100"
    by (simp add: VertexBuffer_init_float32_100_3 heap0_def vb100_def)
  show "fst (VertexBuffer_init (PyArray (zeros [10] vertex_dtype)) PyNone heap0) =
          Returns vb_struct"
    by (simp add: VertexBuffer_init_def Buffer_init_def heap0_def VertexBuffer_set_data_def
        zeros_def vertex_dtype_def unravel_dtype_fields_def in_DTYPES_iff nd_size_def
        set_data_in_buffer_def Buffer_set_data_no_offset vb_struct_def Let_def)
  show "fst (VertexBuffer_getitem vb100 (PySlice None (Some 10) None) heap0) = Returns vb_view"
    by (simp add: VertexBuffer_getitem_def getitem_params_def vb100_def vb_view_def
        VertexBuffer_init_buffer)
qed

text \<open>
  The slice path of \<^verbatim>\<open>__getitem__\<close> on a VertexBuffer that has a shape: the defaults, and
  the three assertions on values that are not zero.
\<close>

lemma VertexBuffer_getitem_slice_defaults:
  assumes "shape v = Some (n, k)" and "0 < n"
  shows "VertexBuffer_getitem v (PySlice None None None) h =
           (Returns \<lparr>isview = True, buffer = buffer v, offset = offset v, stride = stride v,
                     shape = Some (n, k), vtype = vtype v\<rparr>, h)"
proof -
  have "getitem_params v (PySlice None None None) =
          Returns (offset v, stride v, vtype v, n, k)"
    using assms by (simp add: getitem_params_def)
  then show ?thesis by (rule VertexBuffer_getitem_params)
qed

lemma VertexBuffer_getitem_slice_asserts:
  assumes "shape v = Some (n, k)"
    and "istart = Some start \<and> start < 0 \<or> istep = Some step \<and> step < 0 \<or>
         istop = Some stop \<and> stop < 0"
  shows "VertexBuffer_getitem v (PySlice istart istop istep) h = (Raises AssertionError, h)"
proof -
  have "getitem_params v (PySlice istart istop istep) = Raises AssertionError"
    using assms
    by (auto simp: getitem_params_def Let_def split: option.splits)
  then show ?thesis by (rule VertexBuffer_getitem_raises)
qed


subsection \<open>Staging data and committing it\<close>

text \<open>
  C1. \<^verbatim>\<open>Buffer.set_data(data)\<close> with an array and no offset returns normally. The size it
  compares with is \<^verbatim>\<open>_buffer_size\<close> as line 98 reads it: the Buffer's size, or \<open>0\<close> when
  a failed handle has just been reset.
  \<^item> When the array's \<^verbatim>\<open>nbytes\<close> equals that size, the staged offset is \<open>0\<close>, and the next
    \<^verbatim>\<open>_enable()\<close> sends exactly \<^verbatim>\<open>glBindBuffer\<close>, \<^verbatim>\<open>glBufferSubData\<close> at offset \<open>0\<close> and
    \<^verbatim>\<open>glBindBuffer\<close>, all with the handle the Buffer already has: nothing is deleted or
    generated.
  \<^item> When it differs, the staged offset is \<^verbatim>\<open>None\<close>, and the next \<^verbatim>\<open>_enable()\<close> deletes the
    handle (a device call when the handle is positive, that is, allocated), generates a
    new one, binds it, uploads the whole array with \<^verbatim>\<open>glBufferData\<close> and binds again.
  In both cases the pending data is cleared.
\<close>

theorem Buffer_set_data_then_enable:
  fixes b :: Buffer and a :: ndarray and d :: device
  shows
  "fst (Buffer_set_data b (PyArray a) None) = Returns () \<and>
   (nd_nbytes a = (if handle b < 0 then 0 else buffer_size b) \<longrightarrow>
      pending_data (snd (Buffer_set_data b (PyArray a) None)) = Pending a (Some 0) \<and>
      Buffer_enable (snd (Buffer_set_data b (PyArray a) None)) d =
        (Returns (),
         \<lparr>target = target b, handle = (if handle b < 0 then 0 else handle b),
          buffer_size = nd_nbytes a, pending_data = NoPending\<rparr>,
         d\<lparr>calls := calls d @
            [BindBuffer (target b) (if handle b < 0 then 0 else handle b),
             BufferSubData (target b) 0 (nd_nbytes a) a,
             BindBuffer (target b) (if handle b < 0 then 0 else handle b)]\<rparr>)) \<and>
   (nd_nbytes a \<noteq> (if handle b < 0 then 0 else buffer_size b) \<longrightarrow>
      pending_data (snd (Buffer_set_data b (PyArray a) None)) = Pending a None \<and>
      Buffer_enable (snd (Buffer_set_data b (PyArray a) None)) d =
        (Returns (),
         \<lparr>target = target b,
          handle = gen d (calls d @ (if 0 < handle b then [DeleteBuffers [handle b]] else [])),
          buffer_size = nd_nbytes a, pending_data = NoPending\<rparr>,
         d\<lparr>calls := calls d @ (if 0 < handle b then [DeleteBuffers [handle b]] else []) @
            [GenBuffers 1,
             BindBuffer (target b)
               (gen d (calls d @ (if 0 < handle b then [DeleteBuffers [handle b]] else []))),
             BufferData (target b) (nd_nbytes a) a GL_DYNAMIC_DRAW,
             BindBuffer (target b)
               (gen d (calls d @ (if 0 < handle b then [DeleteBuffers [handle b]] else [])))]\<rparr>))"
  unfolding Buffer_set_data_no_offset
  by (simp add: Buffer_enable_def Buffer_device_defs gl_defs)

text \<open>
  A live Buffer of 12 bytes with handle \<open>7\<close>: three floats take the fast path, five floats
  the reallocation.
\<close>

theorem Buffer_set_data_then_enable_witness:
  "nd_nbytes (zeros [3] float32) = 12 \<and>
   Buffer_enable
     (snd (Buffer_set_data
        \<lparr>target = GL_ARRAY_BUFFER, handle = 7, buffer_size = 12, pending_data = NoPending\<rparr>
        (PyArray (zeros [3] float32)) None)) device0 =
     (Returns (),
      \<lparr>target = GL_ARRAY_BUFFER, handle = 7, buffer_size = 12, pending_data = NoPending\<rparr>,
      device0\<lparr>calls :=
        [BindBuffer GL_ARRAY_BUFFER 7,
         BufferSubData GL_ARRAY_BUFFER 0 12 (zeros [3] float32),
         BindBuffer GL_ARRAY_BUFFER 7]\<rparr>) \<and>
   nd_nbytes (zeros [5] float32) \<noteq> 12 \<and>
   Buffer_enable
     (snd (Buffer_set_data
        \<lparr>target = GL_ARRAY_BUFFER, handle = 7, buffer_size = 12, pending_data = NoPending\<rparr>
        (PyArray (zeros [5] float32)) None)) device0 =
     (Returns (),
      \<lparr>target = GL_ARRAY_BUFFER, handle = 2, buffer_size = 20, pending_data = NoPending\<rparr>,
      device0\<lparr>calls :=
        [DeleteBuffers [7], GenBuffers 1, BindBuffer GL_ARRAY_BUFFER 2,
         BufferData GL_ARRAY_BUFFER 20 (zeros [5] float32) GL_DYNAMIC_DRAW,
         BindBuffer GL_ARRAY_BUFFER 2]\<rparr>)"
  using
    Buffer_set_data_then_enable
      [of "\<lparr>target = GL_ARRAY_BUFFER, handle = 7, buffer_size = 12, pending_data = NoPending\<rparr>"
          "zeros [3] float32" device0]
    Buffer_set_data_then_enable
      [of "\<lparr>target = GL_ARRAY_BUFFER, handle = 7, buffer_size = 12, pending_data = NoPending\<rparr>"
          "zeros [5] float32" device0]
  by (simp add: device0_def)

subsection \<open>Slicing and indexing a VertexBuffer\<close>

text \<open>
  C2, as the code has it. On a VertexBuffer that holds data, so that its shape is a pair
  \<open>(n, k)\<close>, a slice with explicit \<open>start \<ge> 0\<close>, \<open>step \<ge> 1\<close> and \<open>stop > 0\<close> returns a
  VertexBuffer that is a view, refers to the same Buffer object (the same reference; the
  heap is untouched, so nothing is copied), has offset \<open>start * stride + offset\<close>, stride
  \<open>step * stride\<close>, shape \<open>((stop - start) div step, k)\<close> and the type of the source.
\<close>

theorem VertexBuffer_getitem_slice:
  assumes "shape v = Some (n, k)" and "0 \<le> start" and "1 \<le> step" and "0 < stop"
  shows "VertexBuffer_getitem v (PySlice (Some start) (Some stop) (Some step)) h =
           (Returns \<lparr>isview = True, buffer = buffer v,
                     offset = start * stride v + offset v,
                     stride = step * stride v,
                     shape = Some ((stop - start) div step, k),
                     vtype = vtype v\<rparr>, h)"
proof -
  have "getitem_params v (PySlice (Some start) (Some stop) (Some step)) =
          Returns (start * stride v + offset v, step * stride v, vtype v,
                   (stop - start) div step, k)"
    using assms by (simp add: getitem_params_def)
  then show ?thesis by (rule VertexBuffer_getitem_params)
qed

theorem VertexBuffer_getitem_slice_witness:
  "VertexBuffer_getitem vb100 (PySlice (Some 10) (Some 50) (Some 3)) heap0 =
     (Returns \<lparr>isview = True, buffer = 0, offset = 120, stride = 36, shape = Some (13, 3),
               vtype = TypeName ''float32''\<rparr>, heap0)"
  using VertexBuffer_getitem_slice [of vb100 100 3 10 3 50 heap0]
  by (simp add: vb100_def)

text \<open>
  \<^verbatim>\<open>VertexBuffer()[0:5:1]\<close>: without data \<^verbatim>\<open>_shape\<close> is \<^verbatim>\<open>None\<close>; the three assertions
  pass and \<^verbatim>\<open>self._shape[1]\<close> raises \<^verbatim>\<open>TypeError\<close>, so no view is returned.
\<close>

theorem VertexBuffer_getitem_slice_counterexample:
  "fst (VertexBuffer_init PyNone PyNone heap0) = Returns vb_empty \<and>
   VertexBuffer_getitem vb_empty (PySlice (Some 0) (Some 5) (Some 1)) heap0 =
     (Raises TypeError, heap0)"
  by (simp add: VertexBuffer_init_def Buffer_init_def heap0_def vb_empty_def Let_def
      VertexBuffer_getitem_def getitem_params_def)

text \<open>
  C3. Indexing by a string: \<^verbatim>\<open>RuntimeError\<close> when the type is not a dict of fields;
  \<^verbatim>\<open>ValueError\<close> when it is and the name is not a key; and for a key with field info
  \<open>(ftype, fcount, foffset)\<close>, on a VertexBuffer of shape \<open>(n, k)\<close>, a view on the same
  Buffer with offset \<open>foffset + offset\<close>, the same stride, type \<open>ftype\<close> and shape
  \<open>(n, fcount)\<close>.
\<close>

theorem VertexBuffer_getitem_name:
  "((\<forall>flds. vtype v \<noteq> TypeFields flds) \<longrightarrow>
      VertexBuffer_getitem v (PyStr name) h = (Raises RuntimeError, h)) \<and>
   (vtype v = TypeFields flds \<and> map_of flds name = None \<longrightarrow>
      VertexBuffer_getitem v (PyStr name) h = (Raises ValueError, h)) \<and>
   (vtype v = TypeFields flds \<and> map_of flds name = Some (ftype, fcount, foffset) \<and>
    shape v = Some (n, k) \<longrightarrow>
      VertexBuffer_getitem v (PyStr name) h =
        (Returns \<lparr>isview = True, buffer = buffer v,
                  offset = foffset + offset v,
                  stride = stride v,
                  shape = Some (n, fcount),
                  vtype = TypeName ftype\<rparr>, h))"
proof (intro conjI impI)
  assume "\<forall>flds. vtype v \<noteq> TypeFields flds"
  then have "getitem_params v (PyStr name) = Raises RuntimeError"
    by (cases "vtype v") (simp_all add: getitem_params_def)
  then show "VertexBuffer_getitem v (PyStr name) h = (Raises RuntimeError, h)"
    by (rule VertexBuffer_getitem_raises)
next
  assume "vtype v = TypeFields flds \<and> map_of flds name = None"
  then have "getitem_params v (PyStr name) = Raises ValueError"
    by (simp add: getitem_params_def)
  then show "VertexBuffer_getitem v (PyStr name) h = (Raises ValueError, h)"
    by (rule VertexBuffer_getitem_raises)
next
  assume "vtype v = TypeFields flds \<and> map_of flds name = Some (ftype, fcount, foffset) \<and>
    shape v = Some (n, k)"
  then have "getitem_params v (PyStr name) =
      Returns (foffset + offset v, stride v, TypeName ftype, n, fcount)"
    by (simp add: getitem_params_def)
  then show "VertexBuffer_getitem v (PyStr name) h =
        (Returns \<lparr>isview = True, buffer = buffer v,
                  offset = foffset + offset v,
                  stride = stride v,
                  shape = Some (n, fcount),
                  vtype = TypeName ftype\<rparr>, h)"
    by (rule VertexBuffer_getitem_params)
qed

theorem VertexBuffer_getitem_name_witness:
  "VertexBuffer_getitem vb100 (PyStr ''pos'') heap0 = (Raises RuntimeError, heap0) \<and>
   VertexBuffer_getitem vb_struct (PyStr ''normal'') heap0 = (Raises ValueError, heap0) \<and>
   VertexBuffer_getitem vb_struct (PyStr ''color'') heap0 =
     (Returns \<lparr>isview = True, buffer = 0, offset = 12, stride = 16, shape = Some (10, 4),
               vtype = TypeName ''uint8''\<rparr>, heap0)"
  using
    VertexBuffer_getitem_name [where v = vb100 and name = "''pos''" and h = heap0]
    VertexBuffer_getitem_name
      [where v = vb_struct and name = "''normal''" and h = heap0
         and flds = "[(''pos'', ''float32'', 3, 0), (''color'', ''uint8'', 4, 12)]"]
    VertexBuffer_getitem_name
      [where v = vb_struct and name = "''color''" and h = heap0
         and flds = "[(''pos'', ''float32'', 3, 0), (''color'', ''uint8'', 4, 12)]"
         and ftype = "''uint8''" and fcount = 4 and foffset = 12 and n = 10 and k = 1]
  by (simp add: vb100_def vb_struct_def)


subsection \<open>Enabling a Buffer\<close>

text \<open>
  Once \<^verbatim>\<open>_pending_data\<close> has been assigned and the handle is not negative, \<^verbatim>\<open>_enable()\<close>
  returns normally, keeps the target, leaves no pending data, and the last call the
  device receives is \<^verbatim>\<open>glBindBuffer\<close> of the Buffer's target with the handle the Buffer has
  afterwards.
\<close>

lemma Buffer_enable_binds:
  assumes "0 \<le> handle b" and "pending_data b \<noteq> Unassigned"
  shows "fst (Buffer_enable b d) = Returns () \<and>
         target (fst (snd (Buffer_enable b d))) = target b \<and>
         pending_data (fst (snd (Buffer_enable b d))) = NoPending \<and>
         calls (snd (snd (Buffer_enable b d))) \<noteq> [] \<and>
         last (calls (snd (snd (Buffer_enable b d)))) =
           BindBuffer (target b) (handle (fst (snd (Buffer_enable b d))))"
proof (cases "pending_data b")
  case Unassigned
  with assms show ?thesis by simp
next
  case NoPending
  with assms show ?thesis by (simp add: Buffer_enable_def gl_defs)
next
  case (Pending a off)
  with assms show ?thesis
    by (cases off; cases "0 < handle b")
      (simp_all add: Buffer_enable_def Buffer_device_defs gl_defs)
qed

text \<open>
  C4. \<^verbatim>\<open>Buffer.__init__\<close> assigns no \<^verbatim>\<open>_pending_data\<close>, and \<^verbatim>\<open>_enable\<close> reads the attribute
  as soon as the handle is not negative. So \<^verbatim>\<open>Buffer(GL_ARRAY_BUFFER)._enable()\<close> raises
  \<^verbatim>\<open>AttributeError\<close> and the device receives no call, in particular no bind. The same
  happens after a first \<^verbatim>\<open>set_data\<close> that fails its assertion:
  \<^verbatim>\<open>set_data(zeros(4, uint8), offset=0)\<close> on the new Buffer raises \<^verbatim>\<open>AssertionError\<close> before
  the attribute is assigned.
\<close>

theorem Buffer_enable_without_data:
  "fst (Buffer_init GL_ARRAY_BUFFER PyNone heap0) = Returns 0 \<and>
   Buffer_enable (objs (snd (Buffer_init GL_ARRAY_BUFFER PyNone heap0)) 0) device0 =
     (Raises AttributeError,
      \<lparr>target = GL_ARRAY_BUFFER, handle = 0, buffer_size = - 1, pending_data = Unassigned\<rparr>,
      device0) \<and>
   fst (Buffer_set_data (objs (snd (Buffer_init GL_ARRAY_BUFFER PyNone heap0)) 0)
          (PyArray (zeros [4] uint8)) (Some 0)) = Raises AssertionError \<and>
   fst (Buffer_enable
          (snd (Buffer_set_data (objs (snd (Buffer_init GL_ARRAY_BUFFER PyNone heap0)) 0)
                  (PyArray (zeros [4] uint8)) (Some 0))) device0) = Raises AttributeError"
  by (simp add: Buffer_init_def heap0_def Buffer_enable_def Buffer_set_data_def)

text \<open>
  C6. A Buffer whose handle is negative: \<^verbatim>\<open>_enable\<close> returns at once. It raises nothing,
  the Buffer is as before and the device has received no call (no bind, no upload, no
  handle creation or deletion), whatever the pending data is, also when it was never
  assigned.
\<close>

theorem Buffer_enable_failed_handle:
  assumes "handle b < 0"
  shows "Buffer_enable b d = (Returns (), b, d)"
  using assms by (simp add: Buffer_enable_def)

theorem Buffer_enable_failed_handle_witness:
  "Buffer_enable
     \<lparr>target = GL_ARRAY_BUFFER, handle = - 1, buffer_size = 12,
      pending_data = Pending (zeros [3] float32) None\<rparr> device0
   = (Returns (),
      \<lparr>target = GL_ARRAY_BUFFER, handle = - 1, buffer_size = 12,
       pending_data = Pending (zeros [3] float32) None\<rparr>, device0)"
  by (rule Buffer_enable_failed_handle) simp

subsection \<open>Constructing a VertexBuffer\<close>

text \<open>
  C5, as the code has it. \<^verbatim>\<open>VertexBuffer(buffer=b)\<close> succeeds for every Buffer object \<open>b\<close>
  and keeps the reference; the Buffer's target is not read. An argument that is neither
  \<^verbatim>\<open>None\<close> nor a Buffer raises \<^verbatim>\<open>ValueError\<close>, whatever the data, with the heap
  unchanged. With no buffer argument a new Buffer is created at a fresh reference, with
  target \<^verbatim>\<open>GL_ARRAY_BUFFER\<close>, handle \<open>0\<close> and size \<open>-1\<close>.
\<close>

theorem VertexBuffer_init_buffer_argument:
  "VertexBuffer_init PyNone (PyBuffer r) h =
     (Returns \<lparr>isview = False, buffer = r, offset = 0, stride = 0, shape = None,
               vtype = TypeNone\<rparr>, h) \<and>
   (buf \<noteq> PyNone \<and> (\<forall>r. buf \<noteq> PyBuffer r) \<longrightarrow>
      VertexBuffer_init data buf h = (Raises ValueError, h)) \<and>
   VertexBuffer_init PyNone PyNone h =
     (Returns \<lparr>isview = False, buffer = next_ref h, offset = 0, stride = 0, shape = None,
               vtype = TypeNone\<rparr>,
      h\<lparr>objs := (objs h)(next_ref h :=
            \<lparr>target = GL_ARRAY_BUFFER, handle = 0, buffer_size = - 1,
             pending_data = Unassigned\<rparr>),
        next_ref := Suc (next_ref h)\<rparr>)"
proof (intro conjI impI)
  show "VertexBuffer_init PyNone (PyBuffer r) h =
     (Returns \<lparr>isview = False, buffer = r, offset = 0, stride = 0, shape = None,
               vtype = TypeNone\<rparr>, h)"
    by (rule VertexBuffer_init_buffer)
next
  assume "buf \<noteq> PyNone \<and> (\<forall>r. buf \<noteq> PyBuffer r)"
  then show "VertexBuffer_init data buf h = (Raises ValueError, h)"
    by (cases buf) (simp_all add: VertexBuffer_init_def)
next
  show "VertexBuffer_init PyNone PyNone h =
     (Returns \<lparr>isview = False, buffer = next_ref h, offset = 0, stride = 0, shape = None,
               vtype = TypeNone\<rparr>,
      h\<lparr>objs := (objs h)(next_ref h :=
            \<lparr>target = GL_ARRAY_BUFFER, handle = 0, buffer_size = - 1,
             pending_data = Unassigned\<rparr>),
        next_ref := Suc (next_ref h)\<rparr>)"
    by (simp add: VertexBuffer_init_def Buffer_init_def Let_def)
qed

theorem VertexBuffer_init_buffer_argument_witness:
  "VertexBuffer_init (PyArray (zeros [100, 3] float32)) (PyStr ''buffer'') heap0 =
     (Raises ValueError, heap0) \<and>
   VertexBuffer_init PyNone (PyInt 3) heap0 = (Raises ValueError, heap0)"
  using
    VertexBuffer_init_buffer_argument
      [where h = heap0 and buf = "PyStr ''buffer''"
         and data = "PyArray (zeros [100, 3] float32)"]
    VertexBuffer_init_buffer_argument [where h = heap0 and buf = "PyInt 3" and data = PyNone]
  by simp

text \<open>
  \<^verbatim>\<open>VertexBuffer(buffer=Buffer(GL_ELEMENT_ARRAY_BUFFER))\<close>: the Buffer is of the index
  kind, and the construction returns a VertexBuffer on it instead of raising
  \<^verbatim>\<open>ValueError\<close>.
\<close>

theorem VertexBuffer_init_buffer_counterexample:
  "fst (Buffer_init GL_ELEMENT_ARRAY_BUFFER PyNone heap0) = Returns 0 \<and>
   target (objs (snd (Buffer_init GL_ELEMENT_ARRAY_BUFFER PyNone heap0)) 0) =
     GL_ELEMENT_ARRAY_BUFFER \<and>
   fst (VertexBuffer_init PyNone (PyBuffer 0)
          (snd (Buffer_init GL_ELEMENT_ARRAY_BUFFER PyNone heap0))) \<noteq> Raises ValueError \<and>
   fst (VertexBuffer_init PyNone (PyBuffer 0)
          (snd (Buffer_init GL_ELEMENT_ARRAY_BUFFER PyNone heap0))) =
     Returns \<lparr>isview = False, buffer = 0, offset = 0, stride = 0, shape = None,
              vtype = TypeNone\<rparr>"
  by (simp add: Buffer_init_def heap0_def VertexBuffer_init_buffer)

subsection \<open>Setting the data of a VertexBuffer\<close>

text \<open>
  C7. \<^verbatim>\<open>set_data\<close> on a view raises \<^verbatim>\<open>RuntimeError\<close> for every data and offset; the view
  and the heap, so also the Buffer it refers to, are as before.
\<close>

theorem VertexBuffer_set_data_view:
  assumes "isview v"
  shows "VertexBuffer_set_data v data offs h = (Raises RuntimeError, v, h)"
  using assms by (simp add: VertexBuffer_set_data_def)

theorem VertexBuffer_set_data_view_witness:
  "isview vb_view \<and>
   VertexBuffer_set_data vb_view (PyArray (zeros [10, 3] float32)) None heap0 =
     (Raises RuntimeError, vb_view, heap0)"
proof -
  have v: "isview vb_view" by (simp add: vb_view_def)
  from VertexBuffer_set_data_view [OF v] v show ?thesis by simp
qed

text \<open>
  C8, as the code has it. \<^verbatim>\<open>VertexBuffer(data)\<close> for a \<open>(100, 3)\<close> array of \<^verbatim>\<open>float32\<close> has
  shape \<open>(100, 3)\<close>, type \<^verbatim>\<open>'float32'\<close> and stride \<open>12\<close>. And \<^verbatim>\<open>set_data(data)\<close> on a
  VertexBuffer that is not a view (its offset is \<open>0\<close>, as for every VertexBuffer that is
  not a view) with a plain array of shape \<open>(n,)\<close> or \<open>(n, k)\<close>, \<open>k\<close> in \<open>{1, 2, 3, 4}\<close>,
  whose dtype name is not a key of \<^verbatim>\<open>DTYPES\<close>:
  \<^item> when numpy converts the array to \<^verbatim>\<open>float32\<close>, it returns normally: the type is
    \<^verbatim>\<open>'float32'\<close>, the shape \<open>(n, k)\<close> with \<open>k = 1\<close> for one dimension, the stride \<open>4 * k\<close>,
    and the Buffer is handed the converted array;
  \<^item> when \<^verbatim>\<open>astype\<close> raises, \<^verbatim>\<open>set_data\<close> raises the same exception, and the VertexBuffer
    and the heap are as before.
\<close>

theorem VertexBuffer_set_data_plain:
  "fst (VertexBuffer_init (PyArray (zeros [100, 3] float32)) PyNone h) =
     Returns \<lparr>isview = False, buffer = next_ref h, offset = 0, stride = 12,
              shape = Some (100, 3), vtype = TypeName ''float32''\<rparr> \<and>
   (\<not> isview v \<and> offset v = 0 \<and>
    (dt_fields (nd_dtype a) = None \<or> dt_fields (nd_dtype a) = Some []) \<and>
    (nd_shape a = [n] \<and> k = 1 \<or> nd_shape a = [n, k] \<and> k \<in> {1, 2, 3, 4}) \<and>
    dt_name (nd_dtype a) \<notin> {''uint8'', ''int8'', ''uint16'', ''int16'', ''float32'', ''float16''} \<and>
    nd_float32_error a = None
    \<longrightarrow>
      VertexBuffer_set_data v (PyArray a) None h =
        (Returns (),
         v\<lparr>vtype := TypeName ''float32'', shape := Some (n, k), stride := 4 * k\<rparr>,
         h\<lparr>objs := (objs h)(buffer v :=
              snd (Buffer_set_data (objs h (buffer v))
                     (PyArray (a\<lparr>nd_dtype := float32\<rparr>)) None))\<rparr>)) \<and>
   (\<not> isview v \<and>
    (dt_fields (nd_dtype a) = None \<or> dt_fields (nd_dtype a) = Some []) \<and>
    (nd_shape a = [n] \<and> k = 1 \<or> nd_shape a = [n, k] \<and> k \<in> {1, 2, 3, 4}) \<and>
    dt_name (nd_dtype a) \<notin> {''uint8'', ''int8'', ''uint16'', ''int16'', ''float32'', ''float16''} \<and>
    nd_float32_error a = Some e
    \<longrightarrow> VertexBuffer_set_data v (PyArray a) offs h = (Raises e, v, h))"
proof (intro conjI impI)
  show "fst (VertexBuffer_init (PyArray (zeros [100, 3] float32)) PyNone h) =
     Returns \<lparr>isview = False, buffer = next_ref h, offset = 0, stride = 12,
              shape = Some (100, 3), vtype = TypeName ''float32''\<rparr>"
    by (rule VertexBuffer_init_float32_100_3)
next
  assume hyp: "\<not> isview v \<and> offset v = 0 \<and>
    (dt_fields (nd_dtype a) = None \<or> dt_fields (nd_dtype a) = Some []) \<and>
    (nd_shape a = [n] \<and> k = 1 \<or> nd_shape a = [n, k] \<and> k \<in> {1, 2, 3, 4}) \<and>
    dt_name (nd_dtype a) \<notin> {''uint8'', ''int8'', ''uint16'', ''int16'', ''float32'', ''float16''} \<and>
    nd_float32_error a = None"
  then have "\<not> in_DTYPES (dt_name (nd_dtype a))"
    by (simp only: in_DTYPES_iff) simp
  moreover from hyp have "VertexBuffer_set_data v (PyArray a) None h =
      (if in_DTYPES (dt_name (nd_dtype a))
       then set_data_in_buffer
              (v\<lparr>vtype := TypeName (dt_name (nd_dtype a)), shape := Some (n, k)\<rparr>)
              a k None h
       else
         case nd_float32_error a of
           Some e \<Rightarrow> (Raises e, v, h)
         | None \<Rightarrow>
             set_data_in_buffer
               (v\<lparr>vtype := TypeName ''float32'', shape := Some (n, k)\<rparr>)
               (a\<lparr>nd_dtype := float32\<rparr>) k None h)"
    by (intro VertexBuffer_set_data_plain_array) simp_all
  ultimately show "VertexBuffer_set_data v (PyArray a) None h =
        (Returns (),
         v\<lparr>vtype := TypeName ''float32'', shape := Some (n, k), stride := 4 * k\<rparr>,
         h\<lparr>objs := (objs h)(buffer v :=
              snd (Buffer_set_data (objs h (buffer v))
                     (PyArray (a\<lparr>nd_dtype := float32\<rparr>)) None))\<rparr>)"
    using hyp by (simp add: set_data_in_buffer_def Buffer_set_data_no_offset)
next
  assume hyp: "\<not> isview v \<and>
    (dt_fields (nd_dtype a) = None \<or> dt_fields (nd_dtype a) = Some []) \<and>
    (nd_shape a = [n] \<and> k = 1 \<or> nd_shape a = [n, k] \<and> k \<in> {1, 2, 3, 4}) \<and>
    dt_name (nd_dtype a) \<notin> {''uint8'', ''int8'', ''uint16'', ''int16'', ''float32'', ''float16''} \<and>
    nd_float32_error a = Some e"
  then have "\<not> in_DTYPES (dt_name (nd_dtype a))"
    by (simp only: in_DTYPES_iff) simp
  moreover from hyp have "VertexBuffer_set_data v (PyArray a) offs h =
      (if in_DTYPES (dt_name (nd_dtype a))
       then set_data_in_buffer
              (v\<lparr>vtype := TypeName (dt_name (nd_dtype a)), shape := Some (n, k)\<rparr>)
              a k offs h
       else
         case nd_float32_error a of
           Some e \<Rightarrow> (Raises e, v, h)
         | None \<Rightarrow>
             set_data_in_buffer
               (v\<lparr>vtype := TypeName ''float32'', shape := Some (n, k)\<rparr>)
               (a\<lparr>nd_dtype := float32\<rparr>) k offs h)"
    by (intro VertexBuffer_set_data_plain_array) simp_all
  ultimately show "VertexBuffer_set_data v (PyArray a) offs h = (Raises e, v, h)"
    using hyp by simp
qed

text \<open>
  \<^verbatim>\<open>VertexBuffer().set_data(zeros((50, 2), float64))\<close> is converted;
  \<^verbatim>\<open>VertexBuffer().set_data(zeros(3, 'U1'))\<close> raises numpy's \<^verbatim>\<open>ValueError\<close>.
\<close>

theorem VertexBuffer_set_data_plain_witness:
  "VertexBuffer_set_data vb_empty (PyArray (zeros [50, 2] float64)) None heap0 =
     (Returns (),
      \<lparr>isview = False, buffer = 0, offset = 0, stride = 8, shape = Some (50, 2),
       vtype = TypeName ''float32''\<rparr>,
      heap0\<lparr>objs := (objs heap0)(0 :=
         \<lparr>target = GL_ARRAY_BUFFER, handle = 0, buffer_size = 400,
          pending_data = Pending (zeros [50, 2] float32) None\<rparr>)\<rparr>) \<and>
   VertexBuffer_set_data vb_empty (PyArray (empty_strings [3])) (Some 4) heap0 =
     (Raises ValueError, vb_empty, heap0)"
  using
    VertexBuffer_set_data_plain
      [where v = vb_empty and a = "zeros [50, 2] float64" and n = 50 and k = 2 and h = heap0]
    VertexBuffer_set_data_plain
      [where v = vb_empty and a = "empty_strings [3]" and n = 3 and k = 1 and h = heap0
         and e = ValueError and offs = "Some 4"]
  by (simp add: vb_empty_def float64_def Buffer_set_data_no_offset heap0_def
      zeros_def nd_nbytes_def nd_size_def float32_def empty_strings_def str32_def)

text \<open>
  An array of strings is plain, one-dimensional, and its dtype name \<^verbatim>\<open>str32\<close> is not a key
  of \<^verbatim>\<open>DTYPES\<close>; \<^verbatim>\<open>VertexBuffer().set_data(zeros(3, 'U1'))\<close> does not succeed.
\<close>

theorem VertexBuffer_set_data_plain_counterexample:
  "dt_fields (nd_dtype (empty_strings [3])) = None \<and>
   nd_shape (empty_strings [3]) = [3] \<and>
   \<not> in_DTYPES (dt_name (nd_dtype (empty_strings [3]))) \<and>
   fst (VertexBuffer_init PyNone PyNone heap0) = Returns vb_empty \<and>
   fst (VertexBuffer_set_data vb_empty (PyArray (empty_strings [3])) None heap0) =
     Raises ValueError"
  by (simp add: empty_strings_def str32_def in_DTYPES_iff VertexBuffer_init_def Buffer_init_def
      heap0_def vb_empty_def Let_def VertexBuffer_set_data_def nd_ndim_def astype_def)

subsection \<open>Where the code departs from its own assertions and documentation\<close>

text \<open>
  C9. \<^verbatim>\<open>index.stop or self._shape[0]\<close> and \<^verbatim>\<open>index.step or 1\<close> replace an explicit \<open>0\<close> by
  the default before the assertions \<^verbatim>\<open>stop > 0\<close> and \<^verbatim>\<open>step >= 1\<close> are reached. On the
  VertexBuffer of a \<open>(100, 3)\<close> \<^verbatim>\<open>float32\<close> array, \<^verbatim>\<open>v[0:0]\<close> returns a view of all 100
  elements and \<^verbatim>\<open>v[:10:0]\<close> a view of 10 elements with step \<open>1\<close>; neither raises
  \<^verbatim>\<open>AssertionError\<close>.
\<close>

theorem VertexBuffer_getitem_zero_stop:
  "VertexBuffer_getitem vb100 (PySlice (Some 0) (Some 0) None) h =
     (Returns \<lparr>isview = True, buffer = 0, offset = 0, stride = 12, shape = Some (100, 3),
               vtype = TypeName ''float32''\<rparr>, h) \<and>
   VertexBuffer_getitem vb100 (PySlice None (Some 10) (Some 0)) h =
     (Returns \<lparr>isview = True, buffer = 0, offset = 0, stride = 12, shape = Some (10, 3),
               vtype = TypeName ''float32''\<rparr>, h)"
  by (simp add: VertexBuffer_getitem_def getitem_params_def vb100_def VertexBuffer_init_buffer)

text \<open>
  C10. \<^verbatim>\<open>set_data\<close> assigns \<^verbatim>\<open>self._buffer_size = data.nbytes\<close> also for a sub-range
  overwrite. On a live Buffer of 100 bytes, writing 4 bytes at offset \<open>8\<close> returns
  normally and leaves \<^verbatim>\<open>nbytes\<close> at \<open>4\<close>, although the device allocation is still 100
  bytes; a second overwrite of 4 bytes at offset \<open>50\<close>, inside the allocation, then fails
  the assertion against the recorded size.
\<close>

theorem Buffer_nbytes_after_partial_update:
  "fst (Buffer_set_data
          \<lparr>target = GL_ARRAY_BUFFER, handle = 1, buffer_size = 100, pending_data = NoPending\<rparr>
          (PyArray (zeros [4] uint8)) (Some 8)) = Returns () \<and>
   nbytes (snd (Buffer_set_data
          \<lparr>target = GL_ARRAY_BUFFER, handle = 1, buffer_size = 100, pending_data = NoPending\<rparr>
          (PyArray (zeros [4] uint8)) (Some 8))) = 4 \<and>
   fst (Buffer_set_data
          (snd (Buffer_set_data
             \<lparr>target = GL_ARRAY_BUFFER, handle = 1, buffer_size = 100, pending_data = NoPending\<rparr>
             (PyArray (zeros [4] uint8)) (Some 8)))
          (PyArray (zeros [4] uint8)) (Some 50)) = Raises AssertionError"
  by (simp add: Buffer_set_data_def nbytes_def)


end
